theory Spec2Isabelle
  imports Complex_Main
begin

section \<open>Python floats, as far as train.py compares them\<close>

text \<open>
  \<^verbatim>\<open>best_loss = float('inf')\<close>, \<^verbatim>\<open>mse_loss < best_loss\<close> and
  \<^verbatim>\<open>min(mse_loss, best_loss)\<close> only compare floats. Every finite double is a real
  number and the comparison of two finite doubles is the comparison of the reals, so
  a finite score is a \<open>real\<close>; the two infinities and NaN are values of their own.
  Every ordered comparison with NaN is false, as in Python.
\<close>

datatype pyfloat = NaN | NegInf | Fin real | PosInf

fun py_lt :: "pyfloat \<Rightarrow> pyfloat \<Rightarrow> bool" where
  "py_lt NaN y = False"
| "py_lt NegInf NaN = False"
| "py_lt NegInf NegInf = False"
| "py_lt NegInf (Fin b) = True"
| "py_lt NegInf PosInf = True"
| "py_lt (Fin a) NaN = False"
| "py_lt (Fin a) NegInf = False"
| "py_lt (Fin a) (Fin b) = (a < b)"
| "py_lt (Fin a) PosInf = True"
| "py_lt PosInf y = False"

fun py_le :: "pyfloat \<Rightarrow> pyfloat \<Rightarrow> bool" where
  "py_le NaN y = False"
| "py_le NegInf NaN = False"
| "py_le NegInf NegInf = True"
| "py_le NegInf (Fin b) = True"
| "py_le NegInf PosInf = True"
| "py_le (Fin a) NaN = False"
| "py_le (Fin a) NegInf = False"
| "py_le (Fin a) (Fin b) = (a \<le> b)"
| "py_le (Fin a) PosInf = True"
| "py_le PosInf NaN = False"
| "py_le PosInf NegInf = False"
| "py_le PosInf (Fin b) = False"
| "py_le PosInf PosInf = True"

text \<open>
  Python's builtin \<^verbatim>\<open>min(a, b)\<close> keeps its first argument and replaces it by the
  second only when \<^verbatim>\<open>b < a\<close> holds.
\<close>

definition py_min :: "pyfloat \<Rightarrow> pyfloat \<Rightarrow> pyfloat" where
  "py_min a b = (if py_lt b a then b else a)"

section \<open>Errors of a run\<close>

text \<open>
  \<^verbatim>\<open>torch.load\<close> raises on a path that holds no checkpoint, and
  \<^verbatim>\<open>i % print_freq\<close> raises when \<^verbatim>\<open>print_freq\<close> is zero. Nothing in train.py
  catches either, so each ends the run.
\<close>

datatype py_error = FileNotFoundError | ZeroDivisionError

section \<open>AverageMeter\<close>

text \<open>
  Modelled from the spec: the class \<^verbatim>\<open>AverageMeter\<close> of utils.py is not among the
  sources. The spec (4.1) describes a running mean and count tracker for scalar losses:
  \<^verbatim>\<open>update(value)\<close> appends one observation, \<^verbatim>\<open>average\<close> is the running mean of all
  observations since the last reset, \<^verbatim>\<open>reset()\<close> clears the state, and it accepts any
  finite numeric value. train.py reads the attributes \<^verbatim>\<open>val\<close> (the last observation)
  and \<^verbatim>\<open>avg\<close>. The spec fixes no average for a meter without observations; \<open>avg\<close>
  is only stated about below where the count is positive.
\<close>

record average_meter =
  val :: real
  total :: real
  observations :: nat

definition reset :: "average_meter \<Rightarrow> average_meter" where
  "reset m = m\<lparr>val := 0, total := 0, observations := 0\<rparr>"

definition AverageMeter :: average_meter where
  "AverageMeter = reset \<lparr>val = 0, total = 0, observations = 0\<rparr>"

definition update :: "average_meter \<Rightarrow> real \<Rightarrow> average_meter" where
  "update m v = m\<lparr>val := v, total := total m + v, observations := Suc (observations m)\<rparr>"

definition avg :: "average_meter \<Rightarrow> real" where
  "avg m = total m / real (observations m)"

section \<open>The network, the optimizer and the gradient clipper\<close>

text \<open>
  The optimizer is built over \<^verbatim>\<open>model.parameters()\<close>, so model and optimizer share
  the parameter tensors and their \<^verbatim>\<open>.grad\<close> buffers: the pair is one value here.
  \<open>'p\<close> is the type of the weights, \<open>'o\<close> that of the optimizer's own state.
\<close>

record ('p, 'o) net =
  params :: 'p
  grads :: "real list"
  opt_state :: 'o

text \<open>
  Modelled from the spec: \<^verbatim>\<open>clip_gradient\<close> of utils.py is not among the sources.
  The spec (4.3) says it clamps each parameter's accumulated gradient in place so that
  no individual gradient value exceeds the configured bound, a fixed scalar threshold
  and not a global-norm rescale, that it mutates the gradient buffers and does not
  touch parameter values.
\<close>

definition clip_value :: "real \<Rightarrow> real \<Rightarrow> real" where
  "clip_value bound g = (if bound < g then bound else if g < - bound then - bound else g)"

definition clip_gradient :: "real \<Rightarrow> ('p, 'o) net \<Rightarrow> ('p, 'o) net" where
  "clip_gradient bound n = n\<lparr>grads := map (clip_value bound) (grads n)\<rparr>"

text \<open>
  What train.py calls and does not define: PyTorch (\<^verbatim>\<open>zero_grad\<close>, \<^verbatim>\<open>backward\<close>,
  \<^verbatim>\<open>step\<close>, the data loader), the network and its loss, and the evaluation. They are
  parameters of the model. \<open>forward_loss\<close> is \<^verbatim>\<open>alpha_prediction_loss(model(img),
  alpha_label).item()\<close>; \<open>train_loader\<close> gives the batches the loader yields in an epoch
  (it reshuffles for each); \<open>new_net\<close> is the fresh DeepLab with an Adam optimizer of
  the given learning rate.
\<close>

record ('b, 'p, 'o) collab =
  new_net :: "real \<Rightarrow> ('p, 'o) net"
  train_loader :: "int \<Rightarrow> 'b list"
  forward_loss :: "('p, 'o) net \<Rightarrow> 'b \<Rightarrow> real"
  zero_grad :: "('p, 'o) net \<Rightarrow> ('p, 'o) net"
  backward :: "'b \<Rightarrow> ('p, 'o) net \<Rightarrow> ('p, 'o) net"
  optimizer_step :: "('p, 'o) net \<Rightarrow> ('p, 'o) net"
  evaluate :: "'p \<Rightarrow> pyfloat \<times> pyfloat"

text \<open>
  Modelled from the spec: \<^verbatim>\<open>test\<close> of test.py is not among the sources. The spec (6)
  gives \<^verbatim>\<open>evaluate(model) -> (sad_score, mse_score)\<close>, a pure function of the model
  weights and a fixed evaluation set: it returns the two scores and changes nothing.
\<close>

definition test :: "('b, 'p, 'o) collab \<Rightarrow> ('p, 'o) net \<Rightarrow> pyfloat \<times> pyfloat" where
  "test K model = evaluate K (params model)"

text \<open>The constants of config.py that train.py uses; config.py is not among the sources.\<close>

record config =
  grad_clip :: real
  print_freq :: int

section \<open>Observable calls\<close>

text \<open>
  Every call of train.py that has an effect outside its local variables, in the order
  it is made. Strings that are only formatted for a log are kept as their arguments.
\<close>

datatype call =
    ModelTrain
  | ZeroGrad
  | Backward
  | ClipGradient real
  | OptimizerStep
  | MeterUpdate real
  | LoggerInfoBatch int nat nat real real
  | PrintLearningRate
  | AddScalar string pyfloat int
  | Test
  | LoggerInfoTest pyfloat pyfloat
  | PrintEpochsSince int
  | SaveCheckpoint int int pyfloat bool

section \<open>train: one epoch over the batches\<close>

text \<open>
  The body of \<^verbatim>\<open>for i, (img, alpha_label) in enumerate(train_loader)\<close>. The loss is
  computed by the forward pass, before the gradients are cleared; \<^verbatim>\<open>loss.item()\<close>
  reads that value after the step.
\<close>

fun train_batches ::
  "('b, 'p, 'o) collab \<Rightarrow> config \<Rightarrow> int \<Rightarrow> nat \<Rightarrow> (nat \<times> 'b) list \<Rightarrow>
   ('p, 'o) net \<times> average_meter \<times> call list \<Rightarrow>
   py_error + ('p, 'o) net \<times> average_meter \<times> call list" where
  "train_batches K cfg epoch len [] acc = Inr acc"
| "train_batches K cfg epoch len ((i, batch) # rest) (model, losses, cs) =
     (let loss = forward_loss K model batch;
          model = zero_grad K model;
          model = backward K batch model;
          model = clip_gradient (grad_clip cfg) model;
          model = optimizer_step K model;
          losses = update losses loss;
          cs = cs @ [ZeroGrad, Backward, ClipGradient (grad_clip cfg), OptimizerStep,
                     MeterUpdate loss]
      in if print_freq cfg = 0 then Inl ZeroDivisionError
         else if int i mod print_freq cfg = 0
         then train_batches K cfg epoch len rest
                (model, losses, cs @ [LoggerInfoBatch epoch i len (val losses) (avg losses)])
         else train_batches K cfg epoch len rest (model, losses, cs))"

definition train ::
  "('b, 'p, 'o) collab \<Rightarrow> config \<Rightarrow> 'b list \<Rightarrow> ('p, 'o) net \<Rightarrow> int \<Rightarrow>
   py_error + real \<times> ('p, 'o) net \<times> call list" where
  "train K cfg loader model epoch =
     (case train_batches K cfg epoch (length loader) (enumerate 0 loader)
             (model, AverageMeter, [ModelTrain]) of
        Inl e \<Rightarrow> Inl e
      | Inr (model, losses, cs) \<Rightarrow> Inr (avg losses, model, cs))"

section \<open>Checkpoints\<close>

text \<open>
  The dictionary that \<^verbatim>\<open>save_checkpoint\<close> is given to store and that \<^verbatim>\<open>train_net\<close>
  reads back: the epoch, the stall counter, the model with its optimizer, and the best
  loss.
\<close>

record ('p, 'o) saved =
  ck_epoch :: int
  ck_epochs_since_improvement :: int
  ck_model :: "('p, 'o) net"
  ck_loss :: pyfloat

text \<open>
  Modelled from the spec: \<^verbatim>\<open>save_checkpoint\<close> of utils.py is not among the sources.
  The spec (4.4) says that saving writes the full training state to a "latest" slot
  unconditionally and additionally to a "best" slot only when \<open>is_best\<close> is true.
  The slots are files, named here by the spec's words.
\<close>

definition save_checkpoint ::
  "int \<Rightarrow> int \<Rightarrow> ('p, 'o) net \<Rightarrow> pyfloat \<Rightarrow> bool \<Rightarrow>
   (string \<Rightarrow> ('p, 'o) saved option) \<Rightarrow> (string \<Rightarrow> ('p, 'o) saved option)" where
  "save_checkpoint epoch esi model loss is_best fs =
     (let state = \<lparr>ck_epoch = epoch, ck_epochs_since_improvement = esi,
                    ck_model = model, ck_loss = loss\<rparr>;
          fs = fs(''latest'' := Some state)
      in if is_best then fs(''best'' := Some state) else fs)"

section \<open>train_net\<close>

text \<open>
  The local variables of \<^verbatim>\<open>train_net\<close> that the epoch loop updates, with the files
  and the calls made so far.
\<close>

record ('p, 'o) state =
  model :: "('p, 'o) net"
  best_loss :: pyfloat
  epochs_since_improvement :: int
  files :: "string \<Rightarrow> ('p, 'o) saved option"
  calls :: "call list"

text \<open>Lines 58 to 67: one epoch's training, the learning rate, the training loss.\<close>

definition one_epoch_training ::
  "('b, 'p, 'o) collab \<Rightarrow> config \<Rightarrow> int \<Rightarrow> ('p, 'o) state \<Rightarrow> py_error + ('p, 'o) state" where
  "one_epoch_training K cfg epoch s =
     (case train K cfg (train_loader K epoch) (model s) epoch of
        Inl e \<Rightarrow> Inl e
      | Inr (train_loss, m, cs) \<Rightarrow>
          Inr (s\<lparr>model := m,
                 calls := calls s @ cs @
                   [PrintLearningRate, AddScalar ''model/train_loss'' (Fin train_loss) epoch]\<rparr>))"

text \<open>Lines 76 to 83: one epoch's test.\<close>

definition one_epoch_test ::
  "('b, 'p, 'o) collab \<Rightarrow> int \<Rightarrow> ('p, 'o) state \<Rightarrow> (pyfloat \<times> pyfloat) \<times> ('p, 'o) state" where
  "one_epoch_test K epoch s =
     (let (sad_loss, mse_loss) = test K (model s)
      in ((sad_loss, mse_loss),
          s\<lparr>calls := calls s @
               [Test, AddScalar ''model/sad_loss'' sad_loss epoch,
                AddScalar ''model/mse_loss'' mse_loss epoch,
                LoggerInfoTest sad_loss mse_loss]\<rparr>))"

text \<open>Lines 85 to 92: check if there was an improvement.\<close>

definition check_improvement ::
  "pyfloat \<Rightarrow> ('p, 'o) state \<Rightarrow> bool \<times> ('p, 'o) state" where
  "check_improvement mse_loss s =
     (let is_best = py_lt mse_loss (best_loss s);
          s = s\<lparr>best_loss := py_min mse_loss (best_loss s)\<rparr>
      in if \<not> is_best
         then (is_best,
               s\<lparr>epochs_since_improvement := epochs_since_improvement s + 1,
                 calls := calls s @ [PrintEpochsSince (epochs_since_improvement s + 1)]\<rparr>)
         else (is_best, s\<lparr>epochs_since_improvement := 0\<rparr>))"

text \<open>Line 95: save the checkpoint.\<close>

definition checkpointing :: "int \<Rightarrow> bool \<Rightarrow> ('p, 'o) state \<Rightarrow> ('p, 'o) state" where
  "checkpointing epoch is_best s =
     s\<lparr>files := save_checkpoint epoch (epochs_since_improvement s) (model s) (best_loss s)
                  is_best (files s),
       calls := calls s @
         [SaveCheckpoint epoch (epochs_since_improvement s) (best_loss s) is_best]\<rparr>"

text \<open>The body of \<^verbatim>\<open>for epoch in range(start_epoch, args.end_epoch)\<close>.\<close>

definition epoch_body ::
  "('b, 'p, 'o) collab \<Rightarrow> config \<Rightarrow> int \<Rightarrow> ('p, 'o) state \<Rightarrow> py_error + ('p, 'o) state" where
  "epoch_body K cfg epoch s =
     (case one_epoch_training K cfg epoch s of
        Inl e \<Rightarrow> Inl e
      | Inr s1 \<Rightarrow>
          (let ((sad_loss, mse_loss), s2) = one_epoch_test K epoch s1;
               (is_best, s3) = check_improvement mse_loss s2
           in Inr (checkpointing epoch is_best s3)))"

function epochs ::
  "('b, 'p, 'o) collab \<Rightarrow> config \<Rightarrow> int \<Rightarrow> int \<Rightarrow> ('p, 'o) state \<Rightarrow> py_error + ('p, 'o) state" where
  "epochs K cfg epoch end_epoch s =
     (if epoch < end_epoch
      then (case epoch_body K cfg epoch s of
              Inl e \<Rightarrow> Inl e
            | Inr s' \<Rightarrow> epochs K cfg (epoch + 1) end_epoch s')
      else Inr s)"
  by pat_completeness auto
termination
  by (relation "measure (\<lambda>(K, cfg, epoch, end_epoch, s). nat (end_epoch - epoch))") auto

declare epochs.simps [simp del]

record args =
  checkpoint :: "string option"
  lr :: real
  end_epoch :: int

text \<open>
  Lines 18 to 37: the initial values of the loop's variables, fresh or from the
  checkpoint that \<^verbatim>\<open>torch.load\<close> reads at the given path.
\<close>

definition initialize ::
  "('b, 'p, 'o) collab \<Rightarrow> args \<Rightarrow> (string \<Rightarrow> ('p, 'o) saved option) \<Rightarrow>
   py_error + int \<times> ('p, 'o) state" where
  "initialize K a fs =
     (let start_epoch = 0;
          best_loss = PosInf;
          epochs_since_improvement = 0
      in case checkpoint a of
           None \<Rightarrow>
             Inr (start_epoch,
                  \<lparr>model = new_net K (lr a), best_loss = best_loss,
                   epochs_since_improvement = epochs_since_improvement,
                   files = fs, calls = []\<rparr>)
         | Some path \<Rightarrow>
             (case fs path of
                None \<Rightarrow> Inl FileNotFoundError
              | Some ck \<Rightarrow>
                  Inr (ck_epoch ck + 1,
                       \<lparr>model = ck_model ck, best_loss = best_loss,
                        epochs_since_improvement = ck_epochs_since_improvement ck,
                        files = fs, calls = []\<rparr>)))"

definition train_net ::
  "('b, 'p, 'o) collab \<Rightarrow> config \<Rightarrow> args \<Rightarrow> (string \<Rightarrow> ('p, 'o) saved option) \<Rightarrow>
   py_error + ('p, 'o) state" where
  "train_net K cfg a fs =
     (case initialize K a fs of
        Inl e \<Rightarrow> Inl e
      | Inr (start_epoch, s) \<Rightarrow> epochs K cfg start_epoch (end_epoch a) s)"

section \<open>Reading a run's calls\<close>

text \<open>The calls of the per-batch update: what the optimizer and the clipper are asked to do.\<close>

fun is_update_call :: "call \<Rightarrow> bool" where
  "is_update_call ZeroGrad = True"
| "is_update_call Backward = True"
| "is_update_call (ClipGradient bound) = True"
| "is_update_call OptimizerStep = True"
| "is_update_call c = False"

fun is_save :: "call \<Rightarrow> bool" where
  "is_save (SaveCheckpoint epoch esi loss is_best) = True"
| "is_save c = False"

fun is_test :: "call \<Rightarrow> bool" where
  "is_test Test = True"
| "is_test c = False"

text \<open>The epochs whose loop body ran to its end: the epoch of every checkpoint saved.\<close>

fun saved_epochs :: "call list \<Rightarrow> int list" where
  "saved_epochs [] = []"
| "saved_epochs (SaveCheckpoint epoch esi loss is_best # cs) = epoch # saved_epochs cs"
| "saved_epochs (c # cs) = saved_epochs cs"

text \<open>The MSE scores that a run has evaluated, in order: one per epoch's test.\<close>

fun mse_scores :: "call list \<Rightarrow> pyfloat list" where
  "mse_scores [] = []"
| "mse_scores (LoggerInfoTest sad_loss mse_loss # cs) = mse_loss # mse_scores cs"
| "mse_scores (c # cs) = mse_scores cs"

text \<open>
  The loss of each batch of an epoch, each on the model as the batches before it have
  left it.
\<close>

fun batch_losses ::
  "('b, 'p, 'o) collab \<Rightarrow> config \<Rightarrow> ('p, 'o) net \<Rightarrow> 'b list \<Rightarrow> real list" where
  "batch_losses K cfg m [] = []"
| "batch_losses K cfg m (batch # rest) =
     forward_loss K m batch #
     batch_losses K cfg
       (optimizer_step K (clip_gradient (grad_clip cfg) (backward K batch (zero_grad K m))))
       rest"

section \<open>A small instance to run\<close>

text \<open>
  Batches are numbers and the loss of a batch is the number itself; the gradient of a
  batch is three times the batch; the weights count the optimizer steps taken. Every
  epoch has one batch, so the evaluation after the epoch numbered \<open>k\<close> of a fresh run
  sees the weights \<open>k + 1\<close>.
\<close>

definition toy :: "(nat \<Rightarrow> pyfloat \<times> pyfloat) \<Rightarrow> (real, nat, unit) collab" where
  "toy scores =
     \<lparr>new_net = (\<lambda>rate. \<lparr>params = 0, grads = [0, 0], opt_state = ()\<rparr>),
      train_loader = (\<lambda>epoch. [2]),
      forward_loss = (\<lambda>m batch. batch),
      zero_grad = (\<lambda>m. m\<lparr>grads := map (\<lambda>g. 0) (grads m)\<rparr>),
      backward = (\<lambda>batch m. m\<lparr>grads := map (\<lambda>g. g + 3 * batch) (grads m)\<rparr>),
      optimizer_step = (\<lambda>m. m\<lparr>params := Suc (params m)\<rparr>),
      evaluate = scores\<rparr>"

definition toy_config :: config where
  "toy_config = \<lparr>grad_clip = 5, print_freq = 100\<rparr>"

text \<open>The scenario of the spec (8): the scores 0.05, 0.06 and 0.04 in epochs 0, 1 and 2.\<close>

definition scenario :: "nat \<Rightarrow> pyfloat \<times> pyfloat" where
  "scenario p =
     (if p = 1 then (Fin 12, Fin 0.05) else if p = 2 then (Fin 13, Fin 0.06)
      else (Fin 11, Fin 0.04))"

text \<open>
  An evaluation that is not a number in epoch 1, as after a diverged epoch: the scores
  0.05, NaN, 0.9 and 0.5 in epochs 0, 1, 2 and 3.
\<close>

definition diverging :: "nat \<Rightarrow> pyfloat \<times> pyfloat" where
  "diverging p =
     (if p = 1 then (Fin 12, Fin 0.05) else if p = 2 then (NaN, NaN)
      else if p = 3 then (Fin 90, Fin 0.9) else (Fin 50, Fin 0.5))"

definition fresh :: "int \<Rightarrow> args" where
  "fresh n = \<lparr>checkpoint = None, lr = 0.01, end_epoch = n\<rparr>"

definition resume :: "string \<Rightarrow> int \<Rightarrow> args" where
  "resume path n = \<lparr>checkpoint = Some path, lr = 0.01, end_epoch = n\<rparr>"

definition no_files :: "string \<Rightarrow> (nat, unit) saved option" where
  "no_files = (\<lambda>path. None)"

text \<open>What a run leaves behind that the claims speak about.\<close>

definition outcome ::
  "py_error + ('p, 'o) state \<Rightarrow>
   py_error + pyfloat \<times> int \<times> pyfloat option \<times> pyfloat option \<times> int list" where
  "outcome r =
     map_sum id
       (\<lambda>s. (best_loss s, epochs_since_improvement s,
             map_option ck_loss (files s ''latest''), map_option ck_loss (files s ''best''),
             saved_epochs (calls s)))
       r"

text \<open>The files that a fresh run of the scenario leaves when it is stopped after epoch 0.\<close>

definition files_after_epoch_0 :: "string \<Rightarrow> (nat, unit) saved option" where
  "files_after_epoch_0 =
     (case train_net (toy scenario) toy_config (fresh 1) no_files of
        Inl e \<Rightarrow> no_files
      | Inr s \<Rightarrow> files s)"

text \<open>
  The loop's variables of the scenario when epoch 0 is over, and those of a fresh run
  before its first epoch.
\<close>

definition after_epoch_0 :: "(nat, unit) state" where
  "after_epoch_0 =
     \<lparr>model = \<lparr>params = 1, grads = [5, 5], opt_state = ()\<rparr>, best_loss = Fin 0.05,
      epochs_since_improvement = 0, files = files_after_epoch_0, calls = []\<rparr>"

definition fresh_state :: "(nat, unit) state" where
  "fresh_state =
     \<lparr>model = \<lparr>params = 0, grads = [0, 0], opt_state = ()\<rparr>, best_loss = PosInf,
      epochs_since_improvement = 0, files = no_files, calls = []\<rparr>"

lemmas run_defs = train_net_def initialize_def epoch_body_def one_epoch_training_def
  one_epoch_test_def check_improvement_def checkpointing_def save_checkpoint_def train_def
  test_def toy_def toy_config_def scenario_def diverging_def fresh_def resume_def no_files_def
  outcome_def AverageMeter_def reset_def update_def avg_def clip_gradient_def clip_value_def
  py_min_def Let_def files_after_epoch_0_def

section \<open>Comparing floats\<close>

lemma py_lt_irrefl: "\<not> py_lt x x"
  by (cases x) simp_all

lemma py_min_le: "a \<noteq> NaN \<Longrightarrow> b \<noteq> NaN \<Longrightarrow> py_le (py_min a b) b \<and> py_min a b \<noteq> NaN"
  by (cases a; cases b) (simp_all add: py_min_def)

lemma py_le_trans: "py_le a b \<Longrightarrow> py_le b c \<Longrightarrow> py_le a c"
  by (cases a; cases b; cases c) simp_all

lemma py_le_refl: "a \<noteq> NaN \<Longrightarrow> py_le a a"
  by (cases a) simp_all

lemma saved_epochs_append: "saved_epochs (xs @ ys) = saved_epochs xs @ saved_epochs ys"
  by (induction xs rule: saved_epochs.induct) simp_all

lemma mse_scores_append: "mse_scores (xs @ ys) = mse_scores xs @ mse_scores ys"
  by (induction xs rule: mse_scores.induct) simp_all

section \<open>The batches of an epoch\<close>

lemma train_batches_total:
  "print_freq cfg \<noteq> 0 \<Longrightarrow> \<exists>r. train_batches K cfg epoch len ibs acc = Inr r"
proof (induction ibs arbitrary: acc)
  case Nil
  then show ?case by (cases acc) simp
next
  case (Cons ib ibs)
  obtain i b where ib: "ib = (i, b)" by (cases ib)
  obtain m l cs where acc: "acc = (m, l, cs)" by (cases acc)
  show ?case
    using Cons.prems Cons.IH by (simp add: ib acc Let_def)
qed

lemma train_batches_result:
  "train_batches K cfg epoch len ibs (m, l, cs) = Inr (m', l', cs') \<Longrightarrow>
     m' = foldl (\<lambda>m b. optimizer_step K (clip_gradient (grad_clip cfg) (backward K b (zero_grad K m))))
            m (map snd ibs) \<and>
     l' = foldl update l (batch_losses K cfg m (map snd ibs)) \<and>
     filter is_update_call cs' = filter is_update_call cs @
       concat (replicate (length ibs)
         [ZeroGrad, Backward, ClipGradient (grad_clip cfg), OptimizerStep]) \<and>
     filter is_save cs' = filter is_save cs \<and>
     filter is_test cs' = filter is_test cs \<and>
     saved_epochs cs' = saved_epochs cs \<and>
     mse_scores cs' = mse_scores cs \<and>
     (\<exists>new. cs' = cs @ new)"
proof (induction ibs arbitrary: m l cs)
  case Nil
  then show ?case by simp
next
  case (Cons ib ibs)
  obtain i b where ib: "ib = (i, b)" by (cases ib)
  let ?m1 = "optimizer_step K (clip_gradient (grad_clip cfg) (backward K b (zero_grad K m)))"
  let ?loss = "forward_loss K m b"
  let ?cs1 = "cs @ [ZeroGrad, Backward, ClipGradient (grad_clip cfg), OptimizerStep,
                     MeterUpdate ?loss]"
  let ?log = "LoggerInfoBatch epoch i len (val (update l ?loss)) (avg (update l ?loss))"
  from Cons.prems have nz: "print_freq cfg \<noteq> 0"
    by (auto simp: ib Let_def split: if_splits)
  show ?case
  proof (cases "int i mod print_freq cfg = 0")
    case True
    with Cons.prems nz
    have "train_batches K cfg epoch len ibs (?m1, update l ?loss, ?cs1 @ [?log]) = Inr (m', l', cs')"
      by (simp add: ib Let_def)
    from Cons.IH [OF this] show ?thesis
      by (auto simp: ib saved_epochs_append mse_scores_append)
  next
    case False
    with Cons.prems nz
    have "train_batches K cfg epoch len ibs (?m1, update l ?loss, ?cs1) = Inr (m', l', cs')"
      by (simp add: ib Let_def)
    from Cons.IH [OF this] show ?thesis
      by (auto simp: ib saved_epochs_append mse_scores_append)
  qed
qed


subsection \<open>train\<close>

lemma train_total:
  assumes "print_freq cfg \<noteq> 0"
  shows "\<exists>r. train K cfg loader m epoch = Inr r"
proof -
  from train_batches_total [OF assms] obtain r where
    "train_batches K cfg epoch (length loader) (enumerate 0 loader) (m, AverageMeter, [ModelTrain])
       = Inr r" by blast
  then show ?thesis by (cases r) (simp add: train_def)
qed

lemma train_result:
  assumes "train K cfg loader m epoch = Inr (loss, m', cs)"
  shows "m' = foldl (\<lambda>m b. optimizer_step K (clip_gradient (grad_clip cfg) (backward K b (zero_grad K m))))
            m loader"
    and "loss = avg (foldl update AverageMeter (batch_losses K cfg m loader))"
    and "filter is_update_call cs =
       concat (replicate (length loader)
         [ZeroGrad, Backward, ClipGradient (grad_clip cfg), OptimizerStep])"
    and "filter is_save cs = []" and "filter is_test cs = []" and "saved_epochs cs = []"
    and "mse_scores cs = []"
proof -
  from assms obtain l where
    tb: "train_batches K cfg epoch (length loader) (enumerate 0 loader) (m, AverageMeter, [ModelTrain])
       = Inr (m', l, cs)" and loss: "loss = avg l"
    by (auto simp: train_def split: sum.splits)
  note r = train_batches_result [OF tb]
  show "m' = foldl (\<lambda>m b. optimizer_step K (clip_gradient (grad_clip cfg) (backward K b (zero_grad K m))))
            m loader"
    using r by simp
  show "loss = avg (foldl update AverageMeter (batch_losses K cfg m loader))"
    using r loss by simp
  show "filter is_update_call cs =
       concat (replicate (length loader)
         [ZeroGrad, Backward, ClipGradient (grad_clip cfg), OptimizerStep])"
    using r by simp
  show "filter is_save cs = []" using r by simp
  show "filter is_test cs = []" using r by simp
  show "saved_epochs cs = []" using r by simp
  show "mse_scores cs = []" using r by simp
qed

section \<open>One epoch\<close>

lemma epoch_body_Inl:
  "train K cfg (train_loader K epoch) (model s) epoch = Inl e \<Longrightarrow> epoch_body K cfg epoch s = Inl e"
  by (simp add: epoch_body_def one_epoch_training_def)

lemma epoch_body_Inr:
  assumes "train K cfg (train_loader K epoch) (model s) epoch = Inr (train_loss, m, cs)"
  shows "epoch_body K cfg epoch s =
     Inr \<lparr>model = m,
          best_loss = py_min (snd (test K m)) (best_loss s),
          epochs_since_improvement =
            (if py_lt (snd (test K m)) (best_loss s) then 0 else epochs_since_improvement s + 1),
          files = save_checkpoint epoch
            (if py_lt (snd (test K m)) (best_loss s) then 0 else epochs_since_improvement s + 1)
            m (py_min (snd (test K m)) (best_loss s)) (py_lt (snd (test K m)) (best_loss s))
            (files s),
          calls = calls s @ cs @
            [PrintLearningRate, AddScalar ''model/train_loss'' (Fin train_loss) epoch,
             Test, AddScalar ''model/sad_loss'' (fst (test K m)) epoch,
             AddScalar ''model/mse_loss'' (snd (test K m)) epoch,
             LoggerInfoTest (fst (test K m)) (snd (test K m))] @
            (if py_lt (snd (test K m)) (best_loss s) then []
             else [PrintEpochsSince (epochs_since_improvement s + 1)]) @
            [SaveCheckpoint epoch
              (if py_lt (snd (test K m)) (best_loss s) then 0 else epochs_since_improvement s + 1)
              (py_min (snd (test K m)) (best_loss s)) (py_lt (snd (test K m)) (best_loss s))]\<rparr>"
  using assms
  by (simp add: epoch_body_def one_epoch_training_def one_epoch_test_def check_improvement_def
      checkpointing_def Let_def split_def)

lemma epoch_body_cases:
  assumes "epoch_body K cfg epoch s = Inr s'"
  obtains train_loss m cs where
    "train K cfg (train_loader K epoch) (model s) epoch = Inr (train_loss, m, cs)"
    "model s' = m"
    "best_loss s' = py_min (snd (test K m)) (best_loss s)"
    "epochs_since_improvement s' =
       (if py_lt (snd (test K m)) (best_loss s) then 0 else epochs_since_improvement s + 1)"
    "files s' = save_checkpoint epoch (epochs_since_improvement s') m (best_loss s')
       (py_lt (snd (test K m)) (best_loss s)) (files s)"
    "calls s' = calls s @ cs @
            [PrintLearningRate, AddScalar ''model/train_loss'' (Fin train_loss) epoch,
             Test, AddScalar ''model/sad_loss'' (fst (test K m)) epoch,
             AddScalar ''model/mse_loss'' (snd (test K m)) epoch,
             LoggerInfoTest (fst (test K m)) (snd (test K m))] @
            (if py_lt (snd (test K m)) (best_loss s) then []
             else [PrintEpochsSince (epochs_since_improvement s + 1)]) @
            [SaveCheckpoint epoch (epochs_since_improvement s') (best_loss s')
              (py_lt (snd (test K m)) (best_loss s))]"
proof -
  from assms obtain tl m cs where
    t: "train K cfg (train_loader K epoch) (model s) epoch = Inr (tl, m, cs)"
    by (cases "train K cfg (train_loader K epoch) (model s) epoch")
       (auto simp: epoch_body_Inl)
  from epoch_body_Inr [OF t] assms have s': "s' = \<lparr>model = m,
          best_loss = py_min (snd (test K m)) (best_loss s),
          epochs_since_improvement =
            (if py_lt (snd (test K m)) (best_loss s) then 0 else epochs_since_improvement s + 1),
          files = save_checkpoint epoch
            (if py_lt (snd (test K m)) (best_loss s) then 0 else epochs_since_improvement s + 1)
            m (py_min (snd (test K m)) (best_loss s)) (py_lt (snd (test K m)) (best_loss s))
            (files s),
          calls = calls s @ cs @
            [PrintLearningRate, AddScalar ''model/train_loss'' (Fin tl) epoch,
             Test, AddScalar ''model/sad_loss'' (fst (test K m)) epoch,
             AddScalar ''model/mse_loss'' (snd (test K m)) epoch,
             LoggerInfoTest (fst (test K m)) (snd (test K m))] @
            (if py_lt (snd (test K m)) (best_loss s) then []
             else [PrintEpochsSince (epochs_since_improvement s + 1)]) @
            [SaveCheckpoint epoch
              (if py_lt (snd (test K m)) (best_loss s) then 0 else epochs_since_improvement s + 1)
              (py_min (snd (test K m)) (best_loss s)) (py_lt (snd (test K m)) (best_loss s))]\<rparr>"
    by simp
  show thesis
    by (rule that [OF t]) (simp_all add: s')
qed

section \<open>The epoch loop\<close>

lemma epochs_done: "stop \<le> epoch \<Longrightarrow> epochs K cfg epoch stop s = Inr s"
  by (simp add: epochs.simps)

lemma epochs_step:
  "epoch < stop \<Longrightarrow> epoch_body K cfg epoch s = Inr s1 \<Longrightarrow>
   epochs K cfg epoch stop s = epochs K cfg (epoch + 1) stop s1"
  by (subst epochs.simps) simp

lemma epochs_fail:
  "epoch < stop \<Longrightarrow> epoch_body K cfg epoch s = Inl e \<Longrightarrow>
   epochs K cfg epoch stop s = Inl e"
  by (subst epochs.simps) simp

lemma epochs_Inr_step:
  assumes "epochs K cfg epoch stop s = Inr s'" and "epoch < stop"
  obtains s1 where "epoch_body K cfg epoch s = Inr s1"
    and "epochs K cfg (epoch + 1) stop s1 = Inr s'"
proof (cases "epoch_body K cfg epoch s")
  case (Inl e)
  with assms epochs_fail [OF assms(2) Inl] show thesis by simp
next
  case (Inr s1)
  with assms epochs_step [OF assms(2) Inr] that show thesis by simp
qed

lemma epoch_body_total:
  assumes "print_freq cfg \<noteq> 0"
  shows "\<exists>s'. epoch_body K cfg epoch s = Inr s'"
proof -
  from train_total [OF assms] obtain r where
    "train K cfg (train_loader K epoch) (model s) epoch = Inr r" by blast
  then show ?thesis by (cases r) (auto simp: epoch_body_Inr)
qed


lemma epochs_total:
  "print_freq cfg \<noteq> 0 \<Longrightarrow> \<exists>s'. epochs K cfg epoch stop s = Inr s'"
proof (induction K cfg epoch stop s rule: epochs.induct)
  case (1 K cfg epoch stop s)
  show ?case
  proof (cases "epoch < stop")
    case True
    from epoch_body_total [OF "1.prems"] obtain s1 where b: "epoch_body K cfg epoch s = Inr s1"
      by blast
    from "1.IH" [OF True b "1.prems"] epochs_step [OF True b] show ?thesis by simp
  next
    case False
    then show ?thesis by (simp add: epochs_done)
  qed
qed


lemma epoch_body_best:
  assumes "epoch_body K cfg epoch s = Inr s'"
  shows "best_loss s' = py_min (snd (test K (model s'))) (best_loss s)"
  using assms by (rule epoch_body_cases) simp

lemma epoch_body_scores:
  assumes "epoch_body K cfg epoch s = Inr s'"
  shows "mse_scores (calls s') = mse_scores (calls s) @ [snd (test K (model s'))]"
proof -
  from assms obtain tl m cs where
    t: "train K cfg (train_loader K epoch) (model s) epoch = Inr (tl, m, cs)"
    and m: "model s' = m"
    and c: "calls s' = calls s @ cs @
            [PrintLearningRate, AddScalar ''model/train_loss'' (Fin tl) epoch,
             Test, AddScalar ''model/sad_loss'' (fst (test K m)) epoch,
             AddScalar ''model/mse_loss'' (snd (test K m)) epoch,
             LoggerInfoTest (fst (test K m)) (snd (test K m))] @
            (if py_lt (snd (test K m)) (best_loss s) then []
             else [PrintEpochsSince (epochs_since_improvement s + 1)]) @
            [SaveCheckpoint epoch (epochs_since_improvement s') (best_loss s')
              (py_lt (snd (test K m)) (best_loss s))]"
    by (rule epoch_body_cases)
  from train_result(7) [OF t] show ?thesis
    by (simp add: c m mse_scores_append)
qed

lemma epochs_scores:
  "epochs K cfg epoch stop s = Inr s' \<Longrightarrow>
   \<exists>new. mse_scores (calls s') = mse_scores (calls s) @ new"
proof (induction K cfg epoch stop s rule: epochs.induct)
  case (1 K cfg epoch stop s)
  show ?case
  proof (cases "epoch < stop")
    case True
    from "1.prems" True obtain s1 where b: "epoch_body K cfg epoch s = Inr s1"
      and r: "epochs K cfg (epoch + 1) stop s1 = Inr s'"
      by (rule epochs_Inr_step)
    from "1.IH" [OF True b r] epoch_body_scores [OF b] show ?thesis by auto
  next
    case False
    with "1.prems" show ?thesis by (simp add: epochs_done)
  qed
qed

subsection \<open>The best loss where no score is NaN\<close>

text \<open>
  An epoch whose score is not NaN, run from a best loss that is not NaN, does not
  increase the best loss, and leaves one that is not NaN.
\<close>

lemma best_loss_non_increasing_epoch:
  assumes "epoch_body K cfg epoch s = Inr s'"
    and "best_loss s \<noteq> NaN" and "snd (test K (model s')) \<noteq> NaN"
  shows "py_le (best_loss s') (best_loss s) \<and> best_loss s' \<noteq> NaN"
  using py_min_le [OF assms(3) assms(2)] epoch_body_best [OF assms(1)] by simp

text \<open>
  So does a run: the hypothesis is on the scores that this run evaluates, those that
  the epochs from \<open>s\<close> on have added to the log, and on no other.
\<close>

lemma best_loss_non_increasing_run:
  "epochs K cfg epoch stop s = Inr s' \<Longrightarrow> best_loss s \<noteq> NaN \<Longrightarrow>
   NaN \<notin> set (drop (length (mse_scores (calls s))) (mse_scores (calls s'))) \<Longrightarrow>
   py_le (best_loss s') (best_loss s) \<and> best_loss s' \<noteq> NaN"
proof (induction K cfg epoch stop s rule: epochs.induct)
  case (1 K cfg epoch stop s)
  show ?case
  proof (cases "epoch < stop")
    case True
    from "1.prems"(1) True obtain s1 where b: "epoch_body K cfg epoch s = Inr s1"
      and r: "epochs K cfg (epoch + 1) stop s1 = Inr s'"
      by (rule epochs_Inr_step)
    note sc1 = epoch_body_scores [OF b]
    from epochs_scores [OF r] obtain new where
      sc: "mse_scores (calls s') = mse_scores (calls s1) @ new" by blast
    from "1.prems"(3) have x: "snd (test K (model s1)) \<noteq> NaN" and new: "NaN \<notin> set new"
      by (auto simp: sc sc1)
    from best_loss_non_increasing_epoch [OF b "1.prems"(2) x]
    have s1: "py_le (best_loss s1) (best_loss s)" "best_loss s1 \<noteq> NaN" by simp_all
    from new have "NaN \<notin> set (drop (length (mse_scores (calls s1))) (mse_scores (calls s')))"
      by (simp add: sc)
    from "1.IH" [OF True b r s1(2) this] s1 show ?thesis
      by (auto intro: py_le_trans)
  next
    case False
    with "1.prems" show ?thesis by (simp add: epochs_done py_le_refl)
  qed
qed

text \<open>The scenario of the spec, run for its three epochs: 0.04 at the end.\<close>

lemma best_loss_non_increasing_scenario:
  "\<exists>s'. epochs (toy scenario) toy_config 0 3 fresh_state = Inr s' \<and>
     mse_scores (calls s') = [Fin 0.05, Fin 0.06, Fin 0.04] \<and>
     py_le (best_loss s') (best_loss fresh_state) \<and> best_loss s' = Fin 0.04"
proof -
  have nz: "print_freq toy_config \<noteq> 0" by (simp add: toy_config_def)
  from epochs_total [OF nz] obtain s' where
    r: "epochs (toy scenario) toy_config 0 3 fresh_state = Inr s'" by blast
  have o: "map_sum id (\<lambda>s. (mse_scores (calls s), best_loss s))
      (epochs (toy scenario) toy_config 0 3 fresh_state)
      = Inr ([Fin 0.05, Fin 0.06, Fin 0.04], Fin 0.04)"
    by (simp add: run_defs fresh_state_def epochs.simps)
  from o r have v: "mse_scores (calls s') = [Fin 0.05, Fin 0.06, Fin 0.04]"
    "best_loss s' = Fin 0.04" by simp_all
  have "NaN \<notin> set (drop (length (mse_scores (calls fresh_state))) (mse_scores (calls s')))"
    by (simp add: v fresh_state_def)
  from best_loss_non_increasing_run [OF r _ this] r v show ?thesis
    by (simp add: fresh_state_def)
qed

lemma toy_epoch_params:
  assumes "epoch_body (toy sc) cfg epoch s = Inr s'"
  shows "params (model s') = Suc (params (model s))"
proof -
  from assms obtain tl m cs where
    t: "train (toy sc) cfg (train_loader (toy sc) epoch) (model s) epoch = Inr (tl, m, cs)"
    and m: "model s' = m"
    by (rule epoch_body_cases)
  from train_result(1) [OF t] show ?thesis
    by (simp add: m toy_def clip_gradient_def)
qed

section \<open>The claims\<close>

text \<open>
  C2. For every epoch, the stall counter after the epoch's checkpointing phase is 0 if
  the epoch's MSE evaluation score is strictly less than the best score held before the
  epoch, and the previous stall counter plus 1 otherwise. The score is that of the
  model as the epoch's training has left it, which is the model of the state after the
  epoch.
\<close>

theorem stall_counter_after_epoch:
  assumes "epoch_body K cfg epoch s = Inr s'"
  shows "epochs_since_improvement s' =
     (if py_lt (snd (test K (model s'))) (best_loss s) then 0
      else epochs_since_improvement s + 1)"
  using assms by (rule epoch_body_cases) simp

theorem stall_counter_after_epoch_witness:
  "\<exists>s'. epoch_body (toy scenario) toy_config 1 after_epoch_0 = Inr s' \<and>
        epochs_since_improvement s' = 1"
proof -
  have "print_freq toy_config \<noteq> 0" by (simp add: toy_config_def)
  from epoch_body_total [OF this] obtain s' where
    b: "epoch_body (toy scenario) toy_config 1 after_epoch_0 = Inr s'" by blast
  from toy_epoch_params [OF b] have "params (model s') = 2"
    by (simp add: after_epoch_0_def)
  with stall_counter_after_epoch [OF b] have "epochs_since_improvement s' = 1"
    by (simp add: test_def toy_def scenario_def after_epoch_0_def)
  with b show ?thesis by blast
qed

text \<open>
  C3. Across a run the best score should never increase, for any sequence of
  evaluation scores. The code breaks this where a score is NaN: line 86 finds no
  improvement (every comparison with NaN is false), and yet line 87 stores
  \<^verbatim>\<open>min(mse_loss, best_loss)\<close>, which is its first argument unless the second is
  smaller. In the run with the scores 0.05, NaN, 0.9 and 0.5 the best score is 0.05
  after epoch 0, NaN after epoch 1 and 0.9 after epoch 2, each time without an
  improvement being reported (the stall counter goes to 1 and 2, the best slot keeps
  0.05); in epoch 3 the score 0.5 then counts as an improvement on 0.9, and the best
  slot is overwritten by a model worse than the one of epoch 0.
\<close>

theorem best_loss_rises_after_nan:
  "outcome (train_net (toy diverging) toy_config (fresh 1) no_files)
     = Inr (Fin 0.05, 0, Some (Fin 0.05), Some (Fin 0.05), [0]) \<and>
   outcome (train_net (toy diverging) toy_config (fresh 2) no_files)
     = Inr (NaN, 1, Some NaN, Some (Fin 0.05), [0, 1]) \<and>
   outcome (train_net (toy diverging) toy_config (fresh 3) no_files)
     = Inr (Fin 0.9, 2, Some (Fin 0.9), Some (Fin 0.05), [0, 1, 2]) \<and>
   outcome (train_net (toy diverging) toy_config (fresh 4) no_files)
     = Inr (Fin 0.5, 0, Some (Fin 0.5), Some (Fin 0.5), [0, 1, 2, 3]) \<and>
   \<not> py_le NaN (Fin 0.05) \<and> \<not> py_le (Fin 0.9) (Fin 0.05) \<and> \<not> py_le (Fin 0.5) (Fin 0.05)"
  by (simp add: run_defs epochs.simps)

text \<open>
  C4. For every epoch, \<open>is_best\<close> is \<open>mse_loss < best_loss\<close> with the strict
  comparison, so a score equal to the best score is no improvement; the checkpoint is
  saved exactly once, as the last call of the epoch, with that flag; the save writes the
  latest slot whatever the flag and the best slot only when the flag is true.
\<close>

theorem checkpoint_saved_once_per_epoch:
  assumes "epoch_body K cfg epoch s = Inr s'"
  shows "(py_lt (snd (test K (model s'))) (best_loss s) \<longrightarrow>
            snd (test K (model s')) \<noteq> best_loss s) \<and>
         filter is_save (calls s') = filter is_save (calls s) @
           [SaveCheckpoint epoch (epochs_since_improvement s') (best_loss s')
              (py_lt (snd (test K (model s'))) (best_loss s))] \<and>
         last (calls s') =
           SaveCheckpoint epoch (epochs_since_improvement s') (best_loss s')
             (py_lt (snd (test K (model s'))) (best_loss s)) \<and>
         files s' ''latest'' =
           Some \<lparr>ck_epoch = epoch, ck_epochs_since_improvement = epochs_since_improvement s',
                 ck_model = model s', ck_loss = best_loss s'\<rparr> \<and>
         files s' ''best'' =
           (if py_lt (snd (test K (model s'))) (best_loss s)
            then Some \<lparr>ck_epoch = epoch, ck_epochs_since_improvement = epochs_since_improvement s',
                       ck_model = model s', ck_loss = best_loss s'\<rparr>
            else files s ''best'')"
proof -
  from assms obtain tl m cs where
    t: "train K cfg (train_loader K epoch) (model s) epoch = Inr (tl, m, cs)"
    and m: "model s' = m"
    and f: "files s' = save_checkpoint epoch (epochs_since_improvement s') m (best_loss s')
       (py_lt (snd (test K m)) (best_loss s)) (files s)"
    and c: "calls s' = calls s @ cs @
            [PrintLearningRate, AddScalar ''model/train_loss'' (Fin tl) epoch,
             Test, AddScalar ''model/sad_loss'' (fst (test K m)) epoch,
             AddScalar ''model/mse_loss'' (snd (test K m)) epoch,
             LoggerInfoTest (fst (test K m)) (snd (test K m))] @
            (if py_lt (snd (test K m)) (best_loss s) then []
             else [PrintEpochsSince (epochs_since_improvement s + 1)]) @
            [SaveCheckpoint epoch (epochs_since_improvement s') (best_loss s')
              (py_lt (snd (test K m)) (best_loss s))]"
    by (rule epoch_body_cases)
  have 1: "py_lt (snd (test K (model s'))) (best_loss s) \<longrightarrow>
            snd (test K (model s')) \<noteq> best_loss s"
    using py_lt_irrefl [of "best_loss s"] by auto
  have 2: "filter is_save (calls s') = filter is_save (calls s) @
           [SaveCheckpoint epoch (epochs_since_improvement s') (best_loss s')
              (py_lt (snd (test K (model s'))) (best_loss s))]"
    using train_result(4) [OF t] by (simp add: c m)
  have 3: "last (calls s') =
           SaveCheckpoint epoch (epochs_since_improvement s') (best_loss s')
             (py_lt (snd (test K (model s'))) (best_loss s))"
    by (simp add: c m)
  have 4: "files s' ''latest'' =
           Some \<lparr>ck_epoch = epoch, ck_epochs_since_improvement = epochs_since_improvement s',
                 ck_model = model s', ck_loss = best_loss s'\<rparr>"
    by (simp add: f m save_checkpoint_def Let_def)
  have 5: "files s' ''best'' =
           (if py_lt (snd (test K (model s'))) (best_loss s)
            then Some \<lparr>ck_epoch = epoch, ck_epochs_since_improvement = epochs_since_improvement s',
                       ck_model = model s', ck_loss = best_loss s'\<rparr>
            else files s ''best'')"
    by (simp add: f m save_checkpoint_def Let_def)
  from 1 2 3 4 5 show ?thesis by blast
qed

theorem checkpoint_saved_once_per_epoch_witness:
  "\<exists>s'. epoch_body (toy scenario) toy_config 1 after_epoch_0 = Inr s' \<and>
     filter is_save (calls s') = [SaveCheckpoint 1 1 (Fin 0.05) False] \<and>
     last (calls s') = SaveCheckpoint 1 1 (Fin 0.05) False \<and>
     map_option ck_loss (files s' ''latest'') = Some (Fin 0.05) \<and>
     map_option ck_epoch (files s' ''latest'') = Some 1 \<and>
     map_option ck_epoch (files s' ''best'') = Some 0"
proof -
  have "print_freq toy_config \<noteq> 0" by (simp add: toy_config_def)
  from epoch_body_total [OF this] obtain s' where
    b: "epoch_body (toy scenario) toy_config 1 after_epoch_0 = Inr s'" by blast
  from toy_epoch_params [OF b] have p: "params (model s') = 2"
    by (simp add: after_epoch_0_def)
  have t: "snd (test (toy scenario) (model s')) = Fin 0.06"
    by (simp add: test_def toy_def scenario_def p)
  from b obtain tl m cs where m: "model s' = m"
    and bl: "best_loss s' = py_min (snd (test (toy scenario) m)) (best_loss after_epoch_0)"
    and es: "epochs_since_improvement s' =
       (if py_lt (snd (test (toy scenario) m)) (best_loss after_epoch_0) then 0
        else epochs_since_improvement after_epoch_0 + 1)"
    by (rule epoch_body_cases)
  have v1: "best_loss s' = Fin 0.05"
    using bl t by (simp add: m [symmetric] after_epoch_0_def py_min_def)
  have v2: "epochs_since_improvement s' = 1"
    using es t by (simp add: m [symmetric] after_epoch_0_def)
  have c: "calls after_epoch_0 = []" and bb: "best_loss after_epoch_0 = Fin 0.05"
    by (simp_all add: after_epoch_0_def)
  have f: "map_option ck_epoch (files after_epoch_0 ''best'') = Some 0"
    by (simp add: after_epoch_0_def run_defs epochs.simps)
  note w = checkpoint_saved_once_per_epoch [OF b, unfolded t v1 v2 c bb]
  have lt: "\<not> py_lt (Fin 0.06) (Fin 0.05)" by simp
  from w f lt show ?thesis
    by (simp add: b)
qed



text \<open>
  C10. When the start epoch that the initialisation gives is greater than or equal to
  the terminal epoch, as on resuming from a checkpoint whose epoch plus one reaches it,
  the loop body never runs: the run returns the initial state, with no call made (no
  batch, no evaluation, no checkpoint saved) and the files as they were.
\<close>

theorem no_epoch_when_start_reaches_end:
  assumes "initialize K a fs = Inr (start_epoch, s)" and "end_epoch a \<le> start_epoch"
  shows "train_net K cfg a fs = Inr s \<and> calls s = [] \<and> files s = fs"
  using assms
  by (auto simp: train_net_def epochs_done initialize_def Let_def split: option.splits)

theorem no_epoch_when_start_reaches_end_witness:
  "outcome (train_net (toy scenario) toy_config (resume ''latest'' 1) files_after_epoch_0)
     = Inr (PosInf, 0, Some (Fin 0.05), Some (Fin 0.05), [])"
proof -
  have f: "files_after_epoch_0 ''latest'' =
    Some \<lparr>ck_epoch = 0, ck_epochs_since_improvement = 0,
          ck_model = \<lparr>params = 1, grads = [5, 5], opt_state = ()\<rparr>, ck_loss = Fin 0.05\<rparr>"
    by (simp add: run_defs epochs.simps)
  have b: "map_option ck_loss (files_after_epoch_0 ''best'') = Some (Fin 0.05)"
    by (simp add: run_defs epochs.simps)
  have i: "initialize (toy scenario) (resume ''latest'' 1) files_after_epoch_0 =
    Inr (1, \<lparr>model = \<lparr>params = 1, grads = [5, 5], opt_state = ()\<rparr>, best_loss = PosInf,
             epochs_since_improvement = 0, files = files_after_epoch_0, calls = []\<rparr>)"
    by (simp add: initialize_def resume_def f)
  have e: "end_epoch (resume ''latest'' 1) \<le> 1" by (simp add: resume_def)
  from no_epoch_when_start_reaches_end [OF i e, of toy_config] f b show ?thesis
    by (simp add: outcome_def)
qed

subsection \<open>The evaluation does not reach the model\<close>

lemma train_batches_evaluate:
  "train_batches (K\<lparr>evaluate := ev\<rparr>) cfg epoch len ibs acc = train_batches K cfg epoch len ibs acc"
proof (induction ibs arbitrary: acc)
  case Nil
  show ?case by simp
next
  case (Cons ib ibs)
  obtain i b where ib: "ib = (i, b)" by (cases ib)
  obtain m l cs where acc: "acc = (m, l, cs)" by (cases acc)
  show ?case by (simp add: ib acc Let_def Cons.IH)
qed

lemma train_evaluate:
  "train (K\<lparr>evaluate := ev\<rparr>) cfg loader m epoch = train K cfg loader m epoch"
  by (simp add: train_def train_batches_evaluate)

lemma epoch_body_model:
  "map_sum id model (epoch_body K cfg epoch s) =
   map_sum id (\<lambda>r. fst (snd r)) (train K cfg (train_loader K epoch) (model s) epoch)"
proof (cases "train K cfg (train_loader K epoch) (model s) epoch")
  case (Inl e)
  then show ?thesis by (simp add: epoch_body_Inl)
next
  case (Inr r)
  obtain tl m cs where r: "r = (tl, m, cs)" by (cases r)
  from Inr show ?thesis by (simp add: r epoch_body_Inr)
qed

lemma epoch_body_model_evaluate:
  assumes "model s = model t"
  shows "map_sum id model (epoch_body (K\<lparr>evaluate := ev\<rparr>) cfg epoch s) =
         map_sum id model (epoch_body K cfg epoch t)"
  by (simp add: epoch_body_model train_evaluate assms)

lemma epochs_model_evaluate:
  "model s = model t \<Longrightarrow>
   map_sum id model (epochs (K\<lparr>evaluate := ev\<rparr>) cfg epoch stop s) =
   map_sum id model (epochs K cfg epoch stop t)"
proof (induction K cfg epoch stop t arbitrary: s rule: epochs.induct)
  case (1 K cfg epoch stop t)
  show ?case
  proof (cases "epoch < stop")
    case False
    then show ?thesis using "1.prems" by (simp add: epochs_done)
  next
    case True
    note eq = epoch_body_model_evaluate [OF "1.prems", where K = K and ev = ev and cfg = cfg
        and epoch = epoch]
    show ?thesis
    proof (cases "epoch_body K cfg epoch t")
      case (Inl e)
      with eq have "epoch_body (K\<lparr>evaluate := ev\<rparr>) cfg epoch s = Inl e"
        by (cases "epoch_body (K\<lparr>evaluate := ev\<rparr>) cfg epoch s") simp_all
      with Inl True show ?thesis by (simp add: epochs_fail)
    next
      case (Inr t1)
      with eq obtain s1 where s1: "epoch_body (K\<lparr>evaluate := ev\<rparr>) cfg epoch s = Inr s1"
        and m: "model s1 = model t1"
        by (cases "epoch_body (K\<lparr>evaluate := ev\<rparr>) cfg epoch s") simp_all
      from "1.IH" [OF True Inr m] show ?thesis
        by (simp add: epochs_step [OF True Inr] epochs_step [OF True s1])
    qed
  qed
qed

text \<open>
  C9. The per-epoch evaluation is a pure read of the model. The test phase of an epoch
  returns the scores of the model and leaves the model with its optimizer, the best
  score, the stall counter and the files as they were; and the scores are never used to
  update the model: replacing the evaluation by any other one, \<open>ev\<close>, changes neither
  the model that a run ends with nor whether the run ends with an error.
\<close>

theorem evaluation_is_a_pure_read:
  "fst (one_epoch_test K epoch s) = test K (model s) \<and>
   model (snd (one_epoch_test K epoch s)) = model s \<and>
   best_loss (snd (one_epoch_test K epoch s)) = best_loss s \<and>
   epochs_since_improvement (snd (one_epoch_test K epoch s)) = epochs_since_improvement s \<and>
   files (snd (one_epoch_test K epoch s)) = files s \<and>
   map_sum id model (epochs (K\<lparr>evaluate := ev\<rparr>) cfg start stop s) =
     map_sum id model (epochs K cfg start stop s)"
proof -
  have "map_sum id model (epochs (K\<lparr>evaluate := ev\<rparr>) cfg start stop s) =
     map_sum id model (epochs K cfg start stop s)"
    by (rule epochs_model_evaluate) simp
  then show ?thesis
    by (simp add: one_epoch_test_def Let_def split_def)
qed

text \<open>
  C6. For every batch of an epoch the update sequence is: clear the gradients, run the
  backward pass, clip the gradients, take the optimizer step. Among the calls of
  \<open>train\<close>, those of the update are this sequence of four once per batch, so the
  clipper is called right after the backward pass and right before the step; and the
  model that \<open>train\<close> returns is the result of these four operations, in this order,
  for one batch after the other.
\<close>

theorem update_sequence_of_every_batch:
  assumes "train K cfg loader m epoch = Inr (loss, m', cs)"
  shows "filter is_update_call cs =
           concat (replicate (length loader)
             [ZeroGrad, Backward, ClipGradient (grad_clip cfg), OptimizerStep]) \<and>
         m' = foldl (\<lambda>m b. optimizer_step K
                   (clip_gradient (grad_clip cfg) (backward K b (zero_grad K m)))) m loader"
  using train_result(1) [OF assms] train_result(3) [OF assms] by simp

theorem update_sequence_of_every_batch_witness:
  "\<exists>loss m' cs.
     train (toy scenario) toy_config [2, 4] \<lparr>params = 0, grads = [0, 0], opt_state = ()\<rparr> 0
       = Inr (loss, m', cs) \<and>
     filter is_update_call cs =
       [ZeroGrad, Backward, ClipGradient 5, OptimizerStep,
        ZeroGrad, Backward, ClipGradient 5, OptimizerStep] \<and>
     m' = \<lparr>params = 2, grads = [5, 5], opt_state = ()\<rparr>"
proof -
  have "print_freq toy_config \<noteq> 0" by (simp add: toy_config_def)
  from train_total [OF this] obtain r where
    "train (toy scenario) toy_config [2, 4] \<lparr>params = 0, grads = [0, 0], opt_state = ()\<rparr> 0
       = Inr r" by blast
  then obtain loss m' cs where
    t: "train (toy scenario) toy_config [2, 4] \<lparr>params = 0, grads = [0, 0], opt_state = ()\<rparr> 0
       = Inr (loss, m', cs)" by (cases r) auto
  from update_sequence_of_every_batch [OF t]
  have "filter is_update_call cs =
       [ZeroGrad, Backward, ClipGradient 5, OptimizerStep,
        ZeroGrad, Backward, ClipGradient 5, OptimizerStep] \<and>
     m' = \<lparr>params = 2, grads = [5, 5], opt_state = ()\<rparr>"
    by (simp add: toy_def toy_config_def clip_gradient_def clip_value_def numeral_2_eq_2)
  with t show ?thesis by blast
qed

text \<open>
  C7. The gradient clipper clamps each gradient value on its own against the fixed
  threshold: with threshold 1 the value 3 is clipped to a magnitude of at most 1, a
  value within the bound is left as it is, every clipped value is within a bound that
  is not negative, and the weights and the optimizer's state are untouched. It is not a
  rescale by a global norm: of the gradients 3, 0.5 and -7 the middle one stays 0.5.
\<close>

theorem clip_gradient_clamps_each_value:
  "\<bar>clip_value 1 3\<bar> \<le> 1 \<and>
   (\<bar>g\<bar> \<le> bound \<longrightarrow> clip_value bound g = g) \<and>
   (0 \<le> bound \<longrightarrow> \<bar>clip_value bound g\<bar> \<le> bound) \<and>
   grads (clip_gradient bound n) = map (clip_value bound) (grads n) \<and>
   params (clip_gradient bound n) = params n \<and>
   opt_state (clip_gradient bound n) = opt_state n \<and>
   grads (clip_gradient 1 (n\<lparr>grads := [3, 0.5, - 7]\<rparr>)) = [1, 0.5, - 1]"
  by (auto simp: clip_value_def clip_gradient_def)

theorem clip_gradient_clamps_each_value_witness:
  "\<bar>0.5 :: real\<bar> \<le> 1 \<and> clip_value 1 0.5 = 0.5 \<and> (0 :: real) \<le> 1 \<and> \<bar>clip_value 1 (- 7)\<bar> \<le> 1"
proof -
  have a: "\<bar>0.5 :: real\<bar> \<le> 1" and b: "(0 :: real) \<le> 1" by simp_all
  from a clip_gradient_clamps_each_value [where g = "0.5" and bound = 1
      and n = "\<lparr>params = (), grads = [], opt_state = ()\<rparr>"]
  have c: "clip_value 1 0.5 = 0.5" by blast
  from b clip_gradient_clamps_each_value [where g = "- 7" and bound = 1
      and n = "\<lparr>params = (), grads = [], opt_state = ()\<rparr>"]
  have d: "\<bar>clip_value 1 (- 7)\<bar> \<le> 1" by blast
  from a b c d show ?thesis by blast
qed

subsection \<open>The meter over a list of losses\<close>

lemma foldl_update:
  "total (foldl update m xs) = total m + sum_list xs \<and>
   observations (foldl update m xs) = observations m + length xs"
  by (induction xs arbitrary: m) (simp_all add: update_def)

lemma avg_foldl_update:
  "avg (foldl update (reset m) xs) = sum_list xs / real (length xs)"
  by (simp add: avg_def foldl_update reset_def)

lemma avg_foldl_AverageMeter:
  "avg (foldl update AverageMeter xs) = sum_list xs / real (length xs)"
  unfolding AverageMeter_def by (rule avg_foldl_update)

lemma length_batch_losses: "length (batch_losses K cfg m loader) = length loader"
  by (induction loader arbitrary: m) simp_all

text \<open>
  C8. The average of the meter is the mean of all values fed to it since the last
  reset: 4 after the updates 2, 4 and 6, 5 after a reset and the update 5, and the sum
  divided by the number for any updates \<open>x # xs\<close> after a reset. \<open>train\<close> returns
  this mean of the losses of the epoch's batches, here for an epoch of at least one
  batch.
\<close>

theorem average_is_running_mean:
  "avg (update (update (update AverageMeter 2) 4) 6) = 4 \<and>
   avg (update (reset m) 5) = 5 \<and>
   avg (foldl update (reset m) (x # xs)) = sum_list (x # xs) / real (length (x # xs)) \<and>
   (train K cfg (b # bs) m0 epoch = Inr (loss, m', cs) \<longrightarrow>
      loss = sum_list (batch_losses K cfg m0 (b # bs)) / real (length (b # bs)))"
proof -
  have 1: "avg (update (update (update AverageMeter 2) 4) 6) = 4"
    by (simp add: avg_def update_def AverageMeter_def reset_def)
  have 2: "avg (update (reset m) 5) = 5"
    by (simp add: avg_def update_def reset_def)
  have 3: "avg (foldl update (reset m) (x # xs)) = sum_list (x # xs) / real (length (x # xs))"
    by (rule avg_foldl_update)
  have 4: "train K cfg (b # bs) m0 epoch = Inr (loss, m', cs) \<longrightarrow>
      loss = sum_list (batch_losses K cfg m0 (b # bs)) / real (length (b # bs))"
  proof
    assume t: "train K cfg (b # bs) m0 epoch = Inr (loss, m', cs)"
    from train_result(2) [OF t] show
      "loss = sum_list (batch_losses K cfg m0 (b # bs)) / real (length (b # bs))"
      by (simp only: avg_foldl_AverageMeter length_batch_losses)
  qed
  from 1 2 3 4 show ?thesis by blast
qed

theorem average_is_running_mean_witness:
  "\<exists>loss m' cs.
     train (toy scenario) toy_config [2, 4, 6] \<lparr>params = 0, grads = [0, 0], opt_state = ()\<rparr> 0
       = Inr (loss, m', cs) \<and> loss = 4"
proof -
  have "print_freq toy_config \<noteq> 0" by (simp add: toy_config_def)
  from train_total [OF this] obtain r where
    "train (toy scenario) toy_config [2, 4, 6] \<lparr>params = 0, grads = [0, 0], opt_state = ()\<rparr> 0
       = Inr r" by blast
  then obtain loss m' cs where
    t: "train (toy scenario) toy_config [2, 4, 6] \<lparr>params = 0, grads = [0, 0], opt_state = ()\<rparr> 0
       = Inr (loss, m', cs)" by (cases r) auto
  from average_is_running_mean [where K = "toy scenario" and cfg = toy_config and b = 2
      and bs = "[4, 6]" and ?m0.0 = "\<lparr>params = 0, grads = [0, 0], opt_state = ()\<rparr>"
      and epoch = 0 and loss = loss and m' = m' and cs = cs] t
  have "loss = 4" by (simp add: toy_def)
  with t show ?thesis by blast
qed

subsection \<open>Resuming\<close>

text \<open>
  What a resumed run starts with: the epoch after the saved one, the saved stall
  counter, the saved model, and infinity as the best loss. The \<^verbatim>\<open>else\<close> branch of
  lines 31 to 37 never reads the loss that line 95 has saved.
\<close>

lemma initialize_resume:
  assumes "checkpoint a = Some path" and "fs path = Some ck"
  shows "initialize K a fs =
     Inr (ck_epoch ck + 1,
          \<lparr>model = ck_model ck, best_loss = PosInf,
           epochs_since_improvement = ck_epochs_since_improvement ck,
           files = fs, calls = []\<rparr>)"
  using assms by (simp add: initialize_def)

text \<open>
  C1. A run restored from a checkpoint resumes at the saved epoch plus one and with the
  saved stall counter, but not with the saved best score. The scenario, stopped after
  epoch 0, has saved the best score 0.05. Run on without interruption, epoch 1 with its
  score 0.06 is no improvement: the best score stays 0.05, the stall counter becomes 1
  and the best slot keeps the checkpoint of epoch 0. Resumed from the latest slot,
  epoch 1 compares 0.06 with infinity: it counts as an improvement, the best score
  becomes 0.06, the stall counter 0, and the best slot is overwritten.
\<close>

theorem resume_restarts_best_loss_at_infinity:
  "outcome (train_net (toy scenario) toy_config (fresh 1) no_files)
     = Inr (Fin 0.05, 0, Some (Fin 0.05), Some (Fin 0.05), [0]) \<and>
   outcome (train_net (toy scenario) toy_config (fresh 2) no_files)
     = Inr (Fin 0.05, 1, Some (Fin 0.05), Some (Fin 0.05), [0, 1]) \<and>
   outcome (train_net (toy scenario) toy_config (resume ''latest'' 2) files_after_epoch_0)
     = Inr (Fin 0.06, 0, Some (Fin 0.06), Some (Fin 0.06), [1])"
  by (simp add: run_defs epochs.simps)

end
